theory Spec2Isabelle
  imports Main
begin

section \<open>Data model of \<open>src/data/make_dataset.py\<close>\<close>

text \<open>
  The exceptions the script can end with. \<open>RequestException\<close> stands for every failure
  of an external call itself (transport error, a body that is not JSON); the other three
  are the Python errors raised by the script's own indexing and variable reads.
\<close>

datatype py_error = IndexError | KeyError | UnboundLocalError | RequestException

text \<open>
  Names are the only strings the script inspects character by character, so they are
  sequences of Unicode code points, as a Python \<open>str\<close> is. DOIs, labels and gender
  categories are opaque to the script and stay HOL strings. \<open>ustr\<close> writes a code-point
  string from a literal.
\<close>

type_synonym pystr = "nat list"

definition ustr :: "string \<Rightarrow> pystr" where
  "ustr s = map of_char s"

text \<open>
  \<open>str.split()\<close> without a separator splits at the characters for which
  \<open>str.isspace\<close> holds: the ASCII controls 9 to 13 and 28 to 31, the space, and the
  Unicode white space beyond ASCII.
\<close>

definition py_isspace :: "nat \<Rightarrow> bool" where
  "py_isspace c \<longleftrightarrow>
     (9 \<le> c \<and> c \<le> 13) \<or> (28 \<le> c \<and> c \<le> 32) \<or> c = 133 \<or> c = 160 \<or> c = 5760 \<or>
     (8192 \<le> c \<and> c \<le> 8202) \<or> c = 8232 \<or> c = 8233 \<or> c = 8239 \<or> c = 8287 \<or>
     c = 12288"

text \<open>\<open>s.replace(".", " ")\<close>: code point 46 is the period, 32 the space.\<close>

definition replace_periods :: "pystr \<Rightarrow> pystr" where
  "replace_periods s = map (\<lambda>c. if c = 46 then 32 else c) s"

text \<open>
  \<open>s.split()\<close> as the scanning loop it is: \<open>tok\<close> is the token being read; white
  space ends a token, and runs of white space (also leading and trailing) yield nothing.
\<close>

fun split_scan :: "pystr \<Rightarrow> pystr \<Rightarrow> pystr list" where
  "split_scan tok [] = (if tok = [] then [] else [tok])"
| "split_scan tok (c # cs) =
     (if py_isspace c then (if tok = [] then split_scan [] cs else tok # split_scan [] cs)
      else split_scan (tok @ [c]) cs)"

definition py_split :: "pystr \<Rightarrow> pystr list" where
  "py_split s = split_scan [] s"

text \<open>
  An author object of the metadata index: a dictionary whose \<open>given\<close> field, when
  present, is a string. The other fields (\<open>family\<close>, \<open>sequence\<close>, \<open>affiliation\<close>) are
  never read.
\<close>

type_synonym author_dict = "string \<rightharpoonup> pystr"

text \<open>
  \<^verbatim>\<open>
  if "given" not in author_dict: name = ""
  else: name = author_dict["given"].replace(".", " ").split()[0]
  return name
  \<close>
  Indexing the empty token list with \<open>[0]\<close> raises \<open>IndexError\<close>.
\<close>

definition get_name_from_author_dict :: "author_dict \<Rightarrow> py_error + pystr" where
  "get_name_from_author_dict author_dict =
     (case author_dict ''given'' of
        None \<Rightarrow> Inr []
      | Some given \<Rightarrow>
          (case py_split (replace_periods given) of
             [] \<Rightarrow> Inl IndexError
           | name # _ \<Rightarrow> Inr name))"

text \<open>
  The words of the specification, for comparison: the first white-space-delimited token
  of a string is what remains of it after the leading white space, up to the next white
  space.
\<close>

definition first_token :: "pystr \<Rightarrow> pystr" where
  "first_token s = takeWhile (\<lambda>c. \<not> py_isspace c) (dropWhile py_isspace s)"

text \<open>A given name has a token when some character of it is neither a period nor white space.\<close>

definition has_token :: "pystr \<Rightarrow> bool" where
  "has_token given \<longleftrightarrow> (\<exists>c \<in> set given. c \<noteq> 46 \<and> \<not> py_isspace c)"

section \<open>The external services\<close>

text \<open>
  The script talks to three services. Each is a parameter of the model: a function from
  the request to either the decoded reply or the exception the call ends with.
  \<^item> the citation index, \<open>GET /index/coci/api/v1/citations/{cited_doi}\<close>: a JSON array
    of objects, of which the script reads the \<open>citing\<close> field;
  \<^item> the metadata index, queried by exact DOI with \<open>limit=1\<close>: \<open>message.total-results\<close>
    and \<open>message.items\<close>, each item with an optional \<open>author\<close> list;
  \<^item> the gender service, \<open>GET /get?key={api_key}&name={name}\<close>: an object of which the
    script reads \<open>gender\<close> and \<open>accuracy\<close>.
\<close>

type_synonym citation_item = "string \<rightharpoonup> string"

record xref_item =
  item_author :: "author_dict list option"

record xref_message =
  msg_total_results :: int
  msg_items :: "xref_item list"

record gender_reply =
  reply_gender :: "string option"
  reply_accuracy :: "int option"

record services =
  citation_index :: "string \<Rightarrow> py_error + citation_item list"
  crossref_works :: "string \<Rightarrow> py_error + xref_message"
  gender_api :: "string \<Rightarrow> pystr \<Rightarrow> py_error + gender_reply"
  GENDER_API_KEY :: string

section \<open>Citation resolver\<close>

text \<open>
  \<^verbatim>\<open>
  items = requests.get(url).json()
  citing_dois = []
  if items:
      for item in items:
          citing_dois.append(item["citing"])
  return citing_dois
  \<close>
\<close>

fun citing_loop :: "citation_item list \<Rightarrow> string list \<Rightarrow> py_error + string list" where
  "citing_loop [] citing_dois = Inr citing_dois"
| "citing_loop (item # rest) citing_dois =
     (case item ''citing'' of
        None \<Rightarrow> Inl KeyError
      | Some citing \<Rightarrow> citing_loop rest (citing_dois @ [citing]))"

definition get_citing_dois :: "services \<Rightarrow> string \<Rightarrow> py_error + string list" where
  "get_citing_dois svc cited_doi =
     (case citation_index svc cited_doi of
        Inl e \<Rightarrow> Inl e
      | Inr its \<Rightarrow> (if its \<noteq> [] then citing_loop its [] else Inr []))"

section \<open>Author resolver\<close>

text \<open>
  \<^verbatim>\<open>
  works = cr.works(query=title, select=["DOI", "author"], limit=1, filter={"doi": doi})
  if works["message"]["total-results"] > 0:
      item = works["message"]["items"][0]
      if "author" in item.keys():
          first_author = get_name_from_author_dict(item["author"][0])
          last_author = get_name_from_author_dict(item["author"][-1])
      else:
          first_author = ""
          last_author = ""
  return first_author, last_author
  \<close>
  When the condition of the outer \<open>if\<close> is false, neither variable has been assigned and
  the \<open>return\<close> raises \<open>UnboundLocalError\<close>. \<open>[0]\<close> and \<open>[-1]\<close> on an empty list raise
  \<open>IndexError\<close>.
\<close>

definition names_from_xref :: "services \<Rightarrow> string \<Rightarrow> py_error + (pystr \<times> pystr)" where
  "names_from_xref svc citing_doi =
     (case crossref_works svc citing_doi of
        Inl e \<Rightarrow> Inl e
      | Inr works \<Rightarrow>
          (if msg_total_results works > 0 then
             (case msg_items works of
                [] \<Rightarrow> Inl IndexError
              | item # _ \<Rightarrow>
                  (case item_author item of
                     Some authors \<Rightarrow>
                       (if authors = [] then Inl IndexError
                        else
                          (case get_name_from_author_dict (hd authors) of
                             Inl e \<Rightarrow> Inl e
                           | Inr first_author \<Rightarrow>
                               (case get_name_from_author_dict (last authors) of
                                  Inl e \<Rightarrow> Inl e
                                | Inr last_author \<Rightarrow> Inr (first_author, last_author))))
                   | None \<Rightarrow> Inr ([], [])))
           else Inl UnboundLocalError))"

section \<open>Gender inference client\<close>

text \<open>
  \<^verbatim>\<open>
  response = requests.get(url).json()
  gender = response["gender"]
  accuracy = response["accuracy"]
  return gender, accuracy
  \<close>
\<close>

definition name_to_gender :: "services \<Rightarrow> pystr \<Rightarrow> string \<Rightarrow> py_error + (string \<times> int)" where
  "name_to_gender svc name api_key =
     (case gender_api svc api_key name of
        Inl e \<Rightarrow> Inl e
      | Inr response \<Rightarrow>
          (case reply_gender response of
             None \<Rightarrow> Inl KeyError
           | Some gender \<Rightarrow>
               (case reply_accuracy response of
                  None \<Rightarrow> Inl KeyError
                | Some accuracy \<Rightarrow> Inr (gender, accuracy))))"

section \<open>Record builder and dataset accumulator\<close>

text \<open>
  A row of the data frame \<open>get_data\<close> returns, and a row of \<open>citing_papers\<close>, which has
  the two columns the module-level loop adds.
\<close>

record citing_paper =
  row_doi :: string
  row_first_author_name :: pystr
  row_first_author_gender :: string
  row_first_author_gender_accuracy :: int
  row_last_author_name :: pystr
  row_last_author_gender :: string
  row_last_author_gender_accuracy :: int

record citing_record = citing_paper +
  row_cited_entity :: string
  row_cited_doi :: string

text \<open>
  The body of the \<open>for\<close> loop of \<open>get_data\<close>: three calls in this order, then the six
  cells of row \<open>n\<close>. No call is inside a \<open>try\<close>.
\<close>

definition get_data_row :: "services \<Rightarrow> string \<Rightarrow> py_error + citing_paper" where
  "get_data_row svc citing_doi =
     (case names_from_xref svc citing_doi of
        Inl e \<Rightarrow> Inl e
      | Inr (fa_name, la_name) \<Rightarrow>
          (case name_to_gender svc fa_name (GENDER_API_KEY svc) of
             Inl e \<Rightarrow> Inl e
           | Inr (fa_gender, fa_accuracy) \<Rightarrow>
               (case name_to_gender svc la_name (GENDER_API_KEY svc) of
                  Inl e \<Rightarrow> Inl e
                | Inr (la_gender, la_accuracy) \<Rightarrow>
                    Inr \<lparr>row_doi = citing_doi,
                         row_first_author_name = fa_name,
                         row_first_author_gender = fa_gender,
                         row_first_author_gender_accuracy = fa_accuracy,
                         row_last_author_name = la_name,
                         row_last_author_gender = la_gender,
                         row_last_author_gender_accuracy = la_accuracy\<rparr>)))"

fun get_data_loop :: "services \<Rightarrow> string list \<Rightarrow> py_error + citing_paper list" where
  "get_data_loop svc [] = Inr []"
| "get_data_loop svc (citing_doi # rest) =
     (case get_data_row svc citing_doi of
        Inl e \<Rightarrow> Inl e
      | Inr row \<Rightarrow>
          (case get_data_loop svc rest of
             Inl e \<Rightarrow> Inl e
           | Inr rows \<Rightarrow> Inr (row # rows)))"

text \<open>
  \<^verbatim>\<open>
  df["doi"] = get_citing_dois(cited_doi=cited_doi)
  if len(df) > 0:
      for n, citing_doi in enumerate(df["doi"]): ...
  return df
  \<close>
\<close>

definition get_data :: "services \<Rightarrow> string \<Rightarrow> py_error + citing_paper list" where
  "get_data svc cited_doi =
     (case get_citing_dois svc cited_doi of
        Inl e \<Rightarrow> Inl e
      | Inr dois \<Rightarrow> (if length dois > 0 then get_data_loop svc dois else Inr []))"

text \<open>\<open>df["cited_entity"] = cited_entity; df["cited_doi"] = doi\<close>\<close>

definition tag_row :: "string \<Rightarrow> string \<Rightarrow> citing_paper \<Rightarrow> citing_record" where
  "tag_row cited_entity cited r =
     \<lparr>row_doi = row_doi r,
      row_first_author_name = row_first_author_name r,
      row_first_author_gender = row_first_author_gender r,
      row_first_author_gender_accuracy = row_first_author_gender_accuracy r,
      row_last_author_name = row_last_author_name r,
      row_last_author_gender = row_last_author_gender r,
      row_last_author_gender_accuracy = row_last_author_gender_accuracy r,
      row_cited_entity = cited_entity,
      row_cited_doi = cited\<rparr>"

text \<open>
  The module-level loop over \<open>cited_dois.items()\<close>, a dictionary read in insertion
  order; \<open>citing_papers\<close> is the running table, to which each \<open>df\<close> is appended.
\<close>

fun accumulate ::
  "services \<Rightarrow> (string \<times> string) list \<Rightarrow> citing_record list \<Rightarrow> py_error + citing_record list"
where
  "accumulate svc [] citing_papers = Inr citing_papers"
| "accumulate svc ((cited_entity, cited) # rest) citing_papers =
     (case get_data svc cited of
        Inl e \<Rightarrow> Inl e
      | Inr df \<Rightarrow> accumulate svc rest (citing_papers @ map (tag_row cited_entity cited) df))"

definition cited_dois :: "(string \<times> string) list" where
  "cited_dois =
     [(''paper'', ''10.1038/s41593-020-0658-y''),
      (''preprint'', ''10.1101/2020.01.03.894378''),
      (''code'', ''10.5281/zenodo.3672109'')]"

definition make_dataset :: "services \<Rightarrow> py_error + citing_record list" where
  "make_dataset svc = accumulate svc cited_dois []"

section \<open>The order of discovery\<close>

text \<open>
  The words of the specification, for comparison with the accumulation loop: the order
  of discovery lists, for each cited work in input order, the citing DOIs in the order
  the citation resolver returned them, each with the label and DOI of the cited work.
\<close>

definition discovery_order :: "services \<Rightarrow> (string \<times> string) list \<Rightarrow> (string \<times> string \<times> string) list" where
  "discovery_order svc works =
     concat (map (\<lambda>(cited_entity, cited).
       (case get_citing_dois svc cited of
          Inl e \<Rightarrow> []
        | Inr dois \<Rightarrow> map (\<lambda>citing_doi. (cited_entity, cited, citing_doi)) dois)) works)"

definition record_key :: "citing_record \<Rightarrow> string \<times> string \<times> string" where
  "record_key r = (row_cited_entity r, row_cited_doi r, row_doi r)"

section \<open>Example services\<close>

text \<open>
  A small world to run the pipeline in. The citation index knows four cited works:
  \<open>10.0/X\<close> is cited by A and B, \<open>10.0/W\<close> by A, \<open>10.0/Y\<close> by C and A, and for
  \<open>10.0/Z\<close> the index lists A twice. The metadata index has A with the single author
  Jane Doe, B without an author list, C with the authors Bob and Alice, E with an empty
  author list, F with a single author whose given name is a lone period, G with two
  authors of whom the first has an empty given name, and no record of any other DOI. The gender service answers (male, 95) for Jane and (unknown, 0) for
  the empty name, fails for Bob, and answers (female, 98) otherwise.
\<close>

definition example_citations :: "string \<Rightarrow> py_error + citation_item list" where
  "example_citations cited_doi =
     (if cited_doi = ''10.0/X'' then Inr [[''citing'' \<mapsto> ''10.0/A''], [''citing'' \<mapsto> ''10.0/B'']]
      else if cited_doi = ''10.0/W'' then Inr [[''citing'' \<mapsto> ''10.0/A'']]
      else if cited_doi = ''10.0/Y'' then Inr [[''citing'' \<mapsto> ''10.0/C''], [''citing'' \<mapsto> ''10.0/A'']]
      else if cited_doi = ''10.0/Z'' then Inr [[''citing'' \<mapsto> ''10.0/A''], [''citing'' \<mapsto> ''10.0/A'']]
      else Inr [])"

definition example_works :: "string \<Rightarrow> py_error + xref_message" where
  "example_works citing_doi =
     (if citing_doi = ''10.0/A'' then
        Inr \<lparr>msg_total_results = 1,
             msg_items = [\<lparr>item_author = Some [[''given'' \<mapsto> ustr ''Jane'']]\<rparr>]\<rparr>
      else if citing_doi = ''10.0/B'' then
        Inr \<lparr>msg_total_results = 1, msg_items = [\<lparr>item_author = None\<rparr>]\<rparr>
      else if citing_doi = ''10.0/C'' then
        Inr \<lparr>msg_total_results = 1,
             msg_items = [\<lparr>item_author =
               Some [[''given'' \<mapsto> ustr ''Bob''], [''given'' \<mapsto> ustr ''Alice'']]\<rparr>]\<rparr>
      else if citing_doi = ''10.0/E'' then
        Inr \<lparr>msg_total_results = 1, msg_items = [\<lparr>item_author = Some []\<rparr>]\<rparr>
      else if citing_doi = ''10.0/F'' then
        Inr \<lparr>msg_total_results = 1,
             msg_items = [\<lparr>item_author = Some [[''given'' \<mapsto> ustr ''.'']]\<rparr>]\<rparr>
      else if citing_doi = ''10.0/G'' then
        Inr \<lparr>msg_total_results = 1,
             msg_items = [\<lparr>item_author =
               Some [[''given'' \<mapsto> []], [''given'' \<mapsto> ustr ''Ann'']]\<rparr>]\<rparr>
      else Inr \<lparr>msg_total_results = 0, msg_items = []\<rparr>)"

definition example_gender :: "string \<Rightarrow> pystr \<Rightarrow> py_error + gender_reply" where
  "example_gender api_key name =
     (if name = ustr ''Jane'' then Inr \<lparr>reply_gender = Some ''male'', reply_accuracy = Some 95\<rparr>
      else if name = [] then Inr \<lparr>reply_gender = Some ''unknown'', reply_accuracy = Some 0\<rparr>
      else if name = ustr ''Bob'' then Inl RequestException
      else Inr \<lparr>reply_gender = Some ''female'', reply_accuracy = Some 98\<rparr>)"

definition example_services :: services where
  "example_services =
     \<lparr>citation_index = example_citations, crossref_works = example_works,
      gender_api = example_gender, GENDER_API_KEY = ''key''\<rparr>"

text \<open>
  The same world with a gender service that rejects the empty name with an error object,
  one that has neither a \<open>gender\<close> nor an \<open>accuracy\<close> field.
\<close>

definition rejecting_gender :: "string \<Rightarrow> pystr \<Rightarrow> py_error + gender_reply" where
  "rejecting_gender api_key name =
     (if name = [] then Inr \<lparr>reply_gender = None, reply_accuracy = None\<rparr>
      else example_gender api_key name)"

definition rejecting_services :: services where
  "rejecting_services =
     \<lparr>citation_index = example_citations, crossref_works = example_works,
      gender_api = rejecting_gender, GENDER_API_KEY = ''key''\<rparr>"

section \<open>Properties of the name normalizer\<close>

lemma split_scan_skip: "split_scan [] (dropWhile py_isspace s) = split_scan [] s"
  by (induction s) auto

lemma split_scan_spaces: "\<forall>c \<in> set s. py_isspace c \<Longrightarrow> split_scan [] s = []"
  by (induction s) auto

lemma split_scan_token:
  "tok \<noteq> [] \<or> (s \<noteq> [] \<and> \<not> py_isspace (hd s)) \<Longrightarrow>
   \<exists>rest. split_scan tok s = (tok @ takeWhile (\<lambda>c. \<not> py_isspace c) s) # rest"
proof (induction s arbitrary: tok)
  case Nil
  then show ?case by simp
next
  case (Cons c cs)
  show ?case
  proof (cases "py_isspace c")
    case True
    with Cons.prems show ?thesis by auto
  next
    case False
    have "\<exists>rest. split_scan (tok @ [c]) cs =
        ((tok @ [c]) @ takeWhile (\<lambda>c. \<not> py_isspace c) cs) # rest"
      by (rule Cons.IH) simp
    with False show ?thesis by simp
  qed
qed

text \<open>
  The scanning loop against the specification's words: either the string is all white
  space and there is no token, or the first element of the result is \<open>first_token\<close>.
\<close>

lemma py_split_cases:
  "py_split s = [] \<and> (\<forall>c \<in> set s. py_isspace c) \<or>
   (\<exists>rest. py_split s = first_token s # rest) \<and> (\<exists>c \<in> set s. \<not> py_isspace c)"
proof (cases "\<forall>c \<in> set s. py_isspace c")
  case True
  then show ?thesis by (simp add: py_split_def split_scan_spaces)
next
  case False
  let ?s1 = "dropWhile py_isspace s"
  from False have ne: "?s1 \<noteq> []" by (simp add: dropWhile_eq_Nil_conv)
  then have "\<not> py_isspace (hd ?s1)" by (rule hd_dropWhile)
  with ne have "\<exists>rest. split_scan [] ?s1 = ([] @ takeWhile (\<lambda>c. \<not> py_isspace c) ?s1) # rest"
    by (intro split_scan_token) simp
  then have "\<exists>rest. py_split s = first_token s # rest"
    by (simp add: py_split_def first_token_def split_scan_skip)
  with False show ?thesis by blast
qed

lemma has_token_iff: "has_token g \<longleftrightarrow> (\<exists>c \<in> set (replace_periods g). \<not> py_isspace c)"
  by (auto simp: has_token_def replace_periods_def py_isspace_def)

lemma get_name_absent:
  "author_dict ''given'' = None \<Longrightarrow> get_name_from_author_dict author_dict = Inr []"
  by (simp add: get_name_from_author_dict_def)

lemma get_name_token:
  assumes "author_dict ''given'' = Some given" and "has_token given"
  shows "get_name_from_author_dict author_dict = Inr (first_token (replace_periods given))"
proof -
  from assms(2) have "\<exists>c \<in> set (replace_periods given). \<not> py_isspace c"
    by (simp add: has_token_iff)
  with py_split_cases [of "replace_periods given"]
  obtain rest where "py_split (replace_periods given) = first_token (replace_periods given) # rest"
    by blast
  with assms(1) show ?thesis by (simp add: get_name_from_author_dict_def)
qed

lemma get_name_no_token:
  assumes "author_dict ''given'' = Some given" and "\<not> has_token given"
  shows "get_name_from_author_dict author_dict = Inl IndexError"
proof -
  from assms(2) have "\<forall>c \<in> set (replace_periods given). py_isspace c"
    by (simp add: has_token_iff)
  with py_split_cases [of "replace_periods given"]
  have "py_split (replace_periods given) = []" by blast
  with assms(1) show ?thesis by (simp add: get_name_from_author_dict_def)
qed

lemma has_token_J_D: "has_token (ustr ''J. D.'')"
  by (simp add: has_token_def ustr_def py_isspace_def)

lemma first_token_J_D: "first_token (replace_periods (ustr ''J. D.'')) = ustr ''J''"
  by (simp add: first_token_def replace_periods_def ustr_def py_isspace_def)

lemma no_token_dots: "\<not> has_token (ustr '' . .. '')"
  by (simp add: has_token_def ustr_def py_isspace_def)

text \<open>
  C5, as the code has it. An entry without a \<open>given\<close> field yields the empty string. An
  entry whose given name has a character that is neither a period nor white space yields
  the first white-space-delimited token of the given name with its periods replaced by
  spaces. (A given name without such a character is the subject of C9.)
\<close>

theorem extract_first_name_first_token:
  "(author_dict ''given'' = None \<longrightarrow> get_name_from_author_dict author_dict = Inr []) \<and>
   (author_dict ''given'' = Some given \<longrightarrow> has_token given \<longrightarrow>
      get_name_from_author_dict author_dict = Inr (first_token (replace_periods given)))"
  using get_name_absent get_name_token by blast

theorem extract_first_name_first_token_witness:
  "get_name_from_author_dict Map.empty = Inr [] \<and>
   has_token (ustr ''J. D.'') \<and>
   get_name_from_author_dict [''given'' \<mapsto> ustr ''J. D.''] = Inr (ustr ''J'')"
  using extract_first_name_first_token [of Map.empty]
    extract_first_name_first_token [of "[''given'' \<mapsto> ustr ''J. D.'']" "ustr ''J. D.''"]
    has_token_J_D first_token_J_D
  by simp

text \<open>
  C5 as the specification words it, for every author entry, fails: the entry
  \<open>{"given": ""}\<close> has a \<open>given\<close> field and no token, and the call raises
  \<open>IndexError\<close> instead of returning a string.
\<close>

theorem extract_first_name_empty_given_raises:
  "get_name_from_author_dict [''given'' \<mapsto> []] = Inl IndexError"
  by (simp add: get_name_from_author_dict_def py_split_def replace_periods_def)

text \<open>
  C9: the name normalizer is partial. When the \<open>given\<close> field is present and has no
  character other than periods and white space, the call raises \<open>IndexError\<close>; it
  returns a string exactly when \<open>given\<close> is absent or has a token.
\<close>

theorem extract_first_name_partial:
  "(author_dict ''given'' = Some given \<longrightarrow> \<not> has_token given \<longrightarrow>
      get_name_from_author_dict author_dict = Inl IndexError) \<and>
   ((\<exists>name. get_name_from_author_dict author_dict = Inr name) \<longleftrightarrow>
      (author_dict ''given'' = None \<or> (\<exists>g. author_dict ''given'' = Some g \<and> has_token g)))"
proof (intro conjI impI iffI)
  assume "author_dict ''given'' = Some given" and "\<not> has_token given"
  then show "get_name_from_author_dict author_dict = Inl IndexError"
    by (rule get_name_no_token)
next
  assume ret: "\<exists>name. get_name_from_author_dict author_dict = Inr name"
  show "author_dict ''given'' = None \<or> (\<exists>g. author_dict ''given'' = Some g \<and> has_token g)"
  proof (cases "author_dict ''given''")
    case None
    then show ?thesis by simp
  next
    case (Some g)
    have "has_token g"
    proof (rule ccontr)
      assume "\<not> has_token g"
      with Some have "get_name_from_author_dict author_dict = Inl IndexError"
        by (rule get_name_no_token)
      with ret show False by simp
    qed
    with Some show ?thesis by simp
  qed
next
  assume "author_dict ''given'' = None \<or> (\<exists>g. author_dict ''given'' = Some g \<and> has_token g)"
  then show "\<exists>name. get_name_from_author_dict author_dict = Inr name"
    using get_name_absent get_name_token by blast
qed

theorem extract_first_name_partial_witness:
  "\<not> has_token (ustr '' . .. '') \<and>
   get_name_from_author_dict [''given'' \<mapsto> ustr '' . .. ''] = Inl IndexError \<and>
   \<not> (\<exists>name. get_name_from_author_dict [''given'' \<mapsto> ustr '' . .. ''] = Inr name)"
  using extract_first_name_partial [of "[''given'' \<mapsto> ustr '' . .. '']" "ustr '' . .. ''"]
    no_token_dots
  by simp

lemmas example_defs =
  example_services_def rejecting_services_def example_citations_def example_works_def
  example_gender_def rejecting_gender_def

lemmas eval_defs =
  get_citing_dois_def names_from_xref_def name_to_gender_def get_data_row_def get_data_def
  tag_row_def get_name_from_author_dict_def py_split_def replace_periods_def ustr_def
  py_isspace_def

section \<open>Properties of the citation resolver\<close>

lemma citing_loop_map:
  "map (\<lambda>item. item ''citing'') its = map Some dois \<Longrightarrow>
   citing_loop its acc = Inr (acc @ dois)"
proof (induction its arbitrary: acc dois)
  case Nil
  then show ?case by simp
next
  case (Cons item its)
  then obtain d ds where "dois = d # ds" "item ''citing'' = Some d"
    "map (\<lambda>item. item ''citing'') its = map Some ds"
    by (cases dois) auto
  with Cons.IH [of ds "acc @ [d]"] show ?case by simp
qed

text \<open>
  C6: when the citation index answers with an array whose objects carry the \<open>citing\<close>
  fields \<open>dois\<close>, in this order, the citation resolver returns exactly \<open>dois\<close>; when it
  answers with the empty array, the resolver returns the empty list and raises nothing.
\<close>

theorem resolve_citations_in_order:
  "(citation_index svc cited_doi = Inr its \<longrightarrow>
      map (\<lambda>item. item ''citing'') its = map Some dois \<longrightarrow>
      get_citing_dois svc cited_doi = Inr dois) \<and>
   (citation_index svc cited_doi = Inr [] \<longrightarrow> get_citing_dois svc cited_doi = Inr [])"
  by (auto simp: get_citing_dois_def citing_loop_map [where acc = "[]", simplified])

theorem resolve_citations_in_order_witness:
  "get_citing_dois example_services ''10.0/X'' = Inr [''10.0/A'', ''10.0/B''] \<and>
   get_citing_dois example_services ''10.0/Q'' = Inr []"
  using
    resolve_citations_in_order [of example_services "''10.0/X''"
      "[[''citing'' \<mapsto> ''10.0/A''], [''citing'' \<mapsto> ''10.0/B'']]" "[''10.0/A'', ''10.0/B'']"]
    resolve_citations_in_order [of example_services "''10.0/Q''" "[]" "[]"]
  by (simp add: example_defs)

section \<open>Properties of the author resolver\<close>

text \<open>
  C1 asks for empty author results when the metadata index reports no matching work. The
  code assigns \<open>first_author\<close> and \<open>last_author\<close> only inside the branch for
  \<open>total-results > 0\<close>, so with zero results its \<open>return\<close> raises
  \<open>UnboundLocalError\<close>.
\<close>

theorem resolve_authors_zero_results_unbound:
  "crossref_works svc citing_doi = Inr works \<Longrightarrow> msg_total_results works = 0 \<Longrightarrow>
   names_from_xref svc citing_doi = Inl UnboundLocalError"
  by (simp add: names_from_xref_def)

theorem resolve_authors_zero_results_unbound_witness:
  "crossref_works example_services ''10.0/D'' = Inr \<lparr>msg_total_results = 0, msg_items = []\<rparr> \<and>
   names_from_xref example_services ''10.0/D'' = Inl UnboundLocalError"
  using resolve_authors_zero_results_unbound [of example_services "''10.0/D''"
      "\<lparr>msg_total_results = 0, msg_items = []\<rparr>"]
  by (simp add: example_defs)

lemma names_from_xref_matched:
  assumes "crossref_works svc citing_doi = Inr works" and "msg_total_results works > 0"
    and "msg_items works = item # rest"
  shows "names_from_xref svc citing_doi =
     (case item_author item of
        None \<Rightarrow> Inr ([], [])
      | Some authors \<Rightarrow>
          (if authors = [] then Inl IndexError
           else
             (case get_name_from_author_dict (authors ! 0) of
                Inl e \<Rightarrow> Inl e
              | Inr first_author \<Rightarrow>
                  (case get_name_from_author_dict (authors ! (length authors - 1)) of
                     Inl e \<Rightarrow> Inl e
                   | Inr last_author \<Rightarrow> Inr (first_author, last_author)))))"
  using assms
  by (auto simp: names_from_xref_def hd_conv_nth last_conv_nth split: option.splits sum.splits)

text \<open>
  C7, as the code has it. For a matched record (a positive \<open>total-results\<close> and a first
  item): without an \<open>author\<close> field both names are empty; with a non-empty author list,
  the result is the pair of names the normalizer derives from the entry at position 0 and
  from the entry at the last position, when it derives a name from each.
\<close>

theorem resolve_authors_first_and_last:
  assumes "crossref_works svc citing_doi = Inr works" and "msg_total_results works > 0"
    and "msg_items works = item # rest"
  shows "(item_author item = None \<longrightarrow> names_from_xref svc citing_doi = Inr ([], [])) \<and>
    (item_author item = Some authors \<longrightarrow> authors \<noteq> [] \<longrightarrow>
       get_name_from_author_dict (authors ! 0) = Inr first_author \<longrightarrow>
       get_name_from_author_dict (authors ! (length authors - 1)) = Inr last_author \<longrightarrow>
       names_from_xref svc citing_doi = Inr (first_author, last_author))"
  by (simp add: names_from_xref_matched [OF assms])

theorem resolve_authors_first_and_last_witness:
  "names_from_xref example_services ''10.0/B'' = Inr ([], []) \<and>
   names_from_xref example_services ''10.0/C'' = Inr (ustr ''Bob'', ustr ''Alice'')"
proof -
  let ?B = "\<lparr>msg_total_results = 1, msg_items = [\<lparr>item_author = None\<rparr>]\<rparr>"
  let ?authors = "[[''given'' \<mapsto> ustr ''Bob''], [''given'' \<mapsto> ustr ''Alice'']]"
  let ?C = "\<lparr>msg_total_results = 1, msg_items = [\<lparr>item_author = Some ?authors\<rparr>]\<rparr>"
  have b: "crossref_works example_services ''10.0/B'' = Inr ?B"
    and c: "crossref_works example_services ''10.0/C'' = Inr ?C"
    by (simp_all add: example_defs)
  have first: "get_name_from_author_dict (?authors ! 0) = Inr (ustr ''Bob'')"
    and last: "get_name_from_author_dict (?authors ! (length ?authors - 1)) = Inr (ustr ''Alice'')"
    by (simp_all add: eval_defs)
  from resolve_authors_first_and_last [OF b, of "\<lparr>item_author = None\<rparr>" "[]"]
  have "names_from_xref example_services ''10.0/B'' = Inr ([], [])" by simp
  moreover
  from resolve_authors_first_and_last [OF c, of "\<lparr>item_author = Some ?authors\<rparr>" "[]"
      ?authors "ustr ''Bob''" "ustr ''Alice''"] first last
  have "names_from_xref example_services ''10.0/C'' = Inr (ustr ''Bob'', ustr ''Alice'')"
    by simp
  ultimately show ?thesis by simp
qed

text \<open>
  C7 as the specification words it fails on a record with a declared author list that is
  empty (E: \<open>[0]\<close> raises), and on one whose first entry has a given name without a
  token (G: the normalizer raises).
\<close>

theorem resolve_authors_empty_author_list_raises:
  "names_from_xref example_services ''10.0/E'' = Inl IndexError \<and>
   names_from_xref example_services ''10.0/G'' = Inl IndexError"
  by (simp add: example_defs eval_defs)

text \<open>
  C10, as the code has it. For a matched record whose author list has exactly one entry
  from which the normalizer derives a name, both returned names are that name, and so are
  the two name fields of the row built for this DOI.
\<close>

theorem resolve_authors_single_author:
  assumes "crossref_works svc citing_doi = Inr works" and "msg_total_results works > 0"
    and "msg_items works = item # rest" and "item_author item = Some [author]"
    and "get_name_from_author_dict author = Inr name"
  shows "names_from_xref svc citing_doi = Inr (name, name) \<and>
    (\<forall>row. get_data_row svc citing_doi = Inr row \<longrightarrow>
       row_first_author_name row = name \<and> row_last_author_name row = name)"
proof -
  from assms(4,5) have names: "names_from_xref svc citing_doi = Inr (name, name)"
    by (simp add: names_from_xref_matched [OF assms(1-3)])
  then show ?thesis
    by (auto simp: get_data_row_def split: sum.splits)
qed

theorem resolve_authors_single_author_witness:
  "names_from_xref example_services ''10.0/A'' = Inr (ustr ''Jane'', ustr ''Jane'') \<and>
   (\<exists>row. get_data_row example_services ''10.0/A'' = Inr row \<and>
      row_first_author_name row = ustr ''Jane'' \<and> row_last_author_name row = ustr ''Jane'')"
proof -
  let ?item = "\<lparr>item_author = Some [[''given'' \<mapsto> ustr ''Jane'']]\<rparr>"
  let ?A = "\<lparr>msg_total_results = 1, msg_items = [?item]\<rparr>"
  have a: "crossref_works example_services ''10.0/A'' = Inr ?A"
    by (simp add: example_defs)
  have name: "get_name_from_author_dict [''given'' \<mapsto> ustr ''Jane''] = Inr (ustr ''Jane'')"
    by (simp add: eval_defs)
  have row: "\<exists>row. get_data_row example_services ''10.0/A'' = Inr row"
    by (simp add: example_defs eval_defs)
  from resolve_authors_single_author [OF a _ _ _ name, of ?item "[]"] row
  show ?thesis by auto
qed

text \<open>
  C10 as worded, for every record with exactly one author entry, fails when that entry
  has a given name without a token (F): the call raises instead of returning two names.
\<close>

theorem resolve_authors_single_author_without_name_raises:
  "names_from_xref example_services ''10.0/F'' = Inl IndexError"
  by (simp add: example_defs eval_defs)

section \<open>Properties of the gender inference client\<close>

text \<open>
  C8, as the code has it. The client has no case for the empty name: it returns the
  gender and accuracy of the service's reply, and its result is (unknown, 0) exactly when
  the service's reply to the empty name carries these two values.
\<close>

theorem infer_gender_empty_name_passes_reply_through:
  "(gender_api svc api_key [] = Inr \<lparr>reply_gender = Some gender, reply_accuracy = Some accuracy\<rparr> \<longrightarrow>
      name_to_gender svc [] api_key = Inr (gender, accuracy)) \<and>
   (name_to_gender svc [] api_key = Inr (''unknown'', 0) \<longleftrightarrow>
      (\<exists>response. gender_api svc api_key [] = Inr response \<and>
         reply_gender response = Some ''unknown'' \<and> reply_accuracy response = Some 0))"
  by (auto simp: name_to_gender_def split: sum.splits option.splits)

theorem infer_gender_empty_name_passes_reply_through_witness:
  "gender_api example_services ''key'' [] =
     Inr \<lparr>reply_gender = Some ''unknown'', reply_accuracy = Some 0\<rparr> \<and>
   name_to_gender example_services [] ''key'' = Inr (''unknown'', 0)"
  using infer_gender_empty_name_passes_reply_through [of example_services "''key''" "''unknown''" 0]
  by (simp add: example_defs ustr_def)

text \<open>
  C8 as the specification words it fails: against a service that answers the empty name
  with an error object, the client raises \<open>KeyError\<close>.
\<close>

theorem infer_gender_empty_name_can_fail:
  "name_to_gender rejecting_services [] ''key'' = Inl KeyError"
  by (simp add: example_defs eval_defs)

section \<open>Properties of the record builder and the accumulator\<close>

lemma get_data_row_doi: "get_data_row svc citing_doi = Inr row \<Longrightarrow> row_doi row = citing_doi"
  by (auto simp: get_data_row_def split: sum.splits prod.splits)

lemma get_data_row_fails:
  assumes "names_from_xref svc citing_doi = Inl e \<or>
    (\<exists>fa_name la_name. names_from_xref svc citing_doi = Inr (fa_name, la_name) \<and>
       (name_to_gender svc fa_name (GENDER_API_KEY svc) = Inl e \<or>
        name_to_gender svc la_name (GENDER_API_KEY svc) = Inl e))"
  shows "\<exists>e'. get_data_row svc citing_doi = Inl e'"
  using assms by (auto simp: get_data_row_def split: sum.splits prod.splits)

lemma get_data_loop_dois: "get_data_loop svc dois = Inr rows \<Longrightarrow> map row_doi rows = dois"
  by (induction dois arbitrary: rows) (auto split: sum.splits dest: get_data_row_doi)

lemma get_data_loop_fails:
  "citing_doi \<in> set dois \<Longrightarrow> get_data_row svc citing_doi = Inl e \<Longrightarrow>
   \<exists>e'. get_data_loop svc dois = Inl e'"
  by (induction dois) (auto split: sum.splits)

lemma get_data_dois:
  "get_data svc cited = Inr df \<Longrightarrow> get_citing_dois svc cited = Inr (map row_doi df)"
  by (auto simp: get_data_def split: sum.splits if_splits dest: get_data_loop_dois)

lemma get_data_fails:
  "get_citing_dois svc cited = Inr dois \<Longrightarrow> citing_doi \<in> set dois \<Longrightarrow>
   get_data_row svc citing_doi = Inl e \<Longrightarrow> \<exists>e'. get_data svc cited = Inl e'"
  using get_data_loop_fails [of citing_doi dois svc e]
  by (auto simp: get_data_def)

lemma accumulate_fails:
  "(cited_entity, cited) \<in> set works \<Longrightarrow> \<exists>e. get_data svc cited = Inl e \<Longrightarrow>
   \<exists>e'. accumulate svc works citing_papers = Inl e'"
  by (induction works arbitrary: citing_papers) (auto split: sum.splits)

lemma record_key_tag_row:
  "record_key (tag_row cited_entity cited r) = (cited_entity, cited, row_doi r)"
  by (simp add: record_key_def tag_row_def)

lemma accumulate_keys:
  "accumulate svc works citing_papers = Inr dataset \<Longrightarrow>
   map record_key dataset = map record_key citing_papers @ discovery_order svc works"
proof (induction works arbitrary: citing_papers)
  case Nil
  then show ?case by (simp add: discovery_order_def)
next
  case (Cons w works)
  obtain cited_entity cited where w: "w = (cited_entity, cited)" by (cases w)
  from Cons.prems w obtain df where df: "get_data svc cited = Inr df"
    and rest: "accumulate svc works (citing_papers @ map (tag_row cited_entity cited) df) = Inr dataset"
    by (auto split: sum.splits)
  from df have dois: "get_citing_dois svc cited = Inr (map row_doi df)"
    by (rule get_data_dois)
  have "map record_key dataset =
      map record_key (citing_papers @ map (tag_row cited_entity cited) df) @ discovery_order svc works"
    using rest by (rule Cons.IH)
  with w dois show ?case
    by (simp add: discovery_order_def record_key_tag_row comp_def)
qed

lemma accumulate_resolved:
  "accumulate svc works citing_papers = Inr dataset \<Longrightarrow> (cited_entity, cited) \<in> set works \<Longrightarrow>
   \<exists>dois. get_citing_dois svc cited = Inr dois"
proof (induction works arbitrary: citing_papers)
  case Nil
  then show ?case by simp
next
  case (Cons w works)
  then show ?case
    by (cases w) (auto split: sum.splits dest: get_data_dois)
qed

lemma discovery_order_Cons:
  "discovery_order svc ((cited_entity, cited) # works) =
     (case get_citing_dois svc cited of
        Inl e \<Rightarrow> []
      | Inr dois \<Rightarrow> map (\<lambda>citing_doi. (cited_entity, cited, citing_doi)) dois) @
     discovery_order svc works"
  by (simp add: discovery_order_def)

lemma discovery_order_Nil: "discovery_order svc [] = []"
  by (simp add: discovery_order_def)

lemma discovery_order_member:
  "(cited_entity, cited, citing_doi) \<in> set (discovery_order svc works) \<longleftrightarrow>
   (cited_entity, cited) \<in> set works \<and>
   (\<exists>dois. get_citing_dois svc cited = Inr dois \<and> citing_doi \<in> set dois)"
proof (induction works)
  case Nil
  then show ?case by (simp add: discovery_order_Nil)
next
  case (Cons w works)
  obtain ce c where w: "w = (ce, c)" by (cases w)
  show ?case
  proof (cases "get_citing_dois svc c")
    case (Inl e)
    with Cons.IH w show ?thesis by (auto simp: discovery_order_Cons)
  next
    case (Inr dois)
    with Cons.IH w show ?thesis by (auto simp: discovery_order_Cons)
  qed
qed

lemma discovery_order_distinct:
  assumes "distinct (map snd works)"
    and "\<And>cited_entity cited dois. (cited_entity, cited) \<in> set works \<Longrightarrow>
      get_citing_dois svc cited = Inr dois \<Longrightarrow> distinct dois"
  shows "distinct (map (\<lambda>(cited_entity, cited, citing_doi). (citing_doi, cited)) (discovery_order svc works))"
  using assms
proof (induction works)
  case Nil
  then show ?case by (simp add: discovery_order_Nil)
next
  case (Cons w works)
  obtain cited_entity cited where w: "w = (cited_entity, cited)" by (cases w)
  let ?f = "\<lambda>(cited_entity, cited, citing_doi). (citing_doi, cited)"
  have tl: "distinct (map ?f (discovery_order svc works))"
    using Cons.prems by (intro Cons.IH) auto
  have fresh: "(ce, cited, d) \<notin> set (discovery_order svc works)" for ce d
  proof
    assume "(ce, cited, d) \<in> set (discovery_order svc works)"
    then have "(ce, cited) \<in> set works" by (simp add: discovery_order_member)
    then have "cited \<in> set (map snd works)" by force
    with Cons.prems(1) w show False by simp
  qed
  show ?case
  proof (cases "get_citing_dois svc cited")
    case (Inl e)
    with tl w show ?thesis by (simp add: discovery_order_Cons)
  next
    case (Inr dois)
    then have "distinct dois" using Cons.prems(2) [of cited_entity cited dois] w by simp
    then have hd: "distinct (map (\<lambda>d. (d, cited)) dois)"
      by (simp add: distinct_map inj_on_def)
    have disj: "set (map (\<lambda>d. (d, cited)) dois) \<inter> set (map ?f (discovery_order svc works)) = {}"
      using fresh by auto
    have "map ?f (discovery_order svc (w # works)) =
        map (\<lambda>d. (d, cited)) dois @ map ?f (discovery_order svc works)"
      using Inr w by (simp add: discovery_order_Cons comp_def)
    with hd tl disj show ?thesis by simp
  qed
qed

lemma example_row_A:
  "get_data_row example_services ''10.0/A'' =
     Inr \<lparr>row_doi = ''10.0/A'',
          row_first_author_name = ustr ''Jane'', row_first_author_gender = ''male'',
          row_first_author_gender_accuracy = 95,
          row_last_author_name = ustr ''Jane'', row_last_author_gender = ''male'',
          row_last_author_gender_accuracy = 95\<rparr>"
  by (simp add: example_defs eval_defs)

lemma example_row_B:
  "get_data_row example_services ''10.0/B'' =
     Inr \<lparr>row_doi = ''10.0/B'',
          row_first_author_name = [], row_first_author_gender = ''unknown'',
          row_first_author_gender_accuracy = 0,
          row_last_author_name = [], row_last_author_gender = ''unknown'',
          row_last_author_gender_accuracy = 0\<rparr>"
  by (simp add: example_defs eval_defs)

lemma example_row_C: "get_data_row example_services ''10.0/C'' = Inl RequestException"
  by (simp add: example_defs eval_defs)

lemma example_citing:
  "get_citing_dois example_services ''10.0/X'' = Inr [''10.0/A'', ''10.0/B'']"
  "get_citing_dois example_services ''10.0/W'' = Inr [''10.0/A'']"
  "get_citing_dois example_services ''10.0/Y'' = Inr [''10.0/C'', ''10.0/A'']"
  "get_citing_dois example_services ''10.0/Z'' = Inr [''10.0/A'', ''10.0/A'']"
  by (simp_all add: example_defs get_citing_dois_def)

lemma example_data_X:
  "get_data example_services ''10.0/X'' =
     Inr [\<lparr>row_doi = ''10.0/A'',
           row_first_author_name = ustr ''Jane'', row_first_author_gender = ''male'',
           row_first_author_gender_accuracy = 95,
           row_last_author_name = ustr ''Jane'', row_last_author_gender = ''male'',
           row_last_author_gender_accuracy = 95\<rparr>,
          \<lparr>row_doi = ''10.0/B'',
           row_first_author_name = [], row_first_author_gender = ''unknown'',
           row_first_author_gender_accuracy = 0,
           row_last_author_name = [], row_last_author_gender = ''unknown'',
           row_last_author_gender_accuracy = 0\<rparr>]"
  by (simp add: get_data_def example_citing example_row_A example_row_B)

lemma example_data_W:
  "get_data example_services ''10.0/W'' =
     Inr [\<lparr>row_doi = ''10.0/A'',
           row_first_author_name = ustr ''Jane'', row_first_author_gender = ''male'',
           row_first_author_gender_accuracy = 95,
           row_last_author_name = ustr ''Jane'', row_last_author_gender = ''male'',
           row_last_author_gender_accuracy = 95\<rparr>]"
  by (simp add: get_data_def example_citing example_row_A)

lemma example_data_Y: "get_data example_services ''10.0/Y'' = Inl RequestException"
  by (simp add: get_data_def example_citing example_row_C)

text \<open>
  C4: the record order of a run's dataset is the order of discovery. Every cited work's
  citation list was resolved, and the records, read by (label, cited DOI, citing DOI),
  are the cited works in input order and, within each, the citing DOIs in the order the
  citation resolver returned them.
\<close>

theorem dataset_order_is_discovery_order:
  assumes "accumulate svc works [] = Inr dataset"
  shows "map record_key dataset = discovery_order svc works \<and>
    (\<forall>(cited_entity, cited) \<in> set works. \<exists>dois. get_citing_dois svc cited = Inr dois)"
  using accumulate_keys [OF assms] accumulate_resolved [OF assms] by auto

theorem dataset_order_is_discovery_order_witness:
  "(\<exists>dataset. accumulate example_services [(''x'', ''10.0/X''), (''w'', ''10.0/W'')] [] = Inr dataset \<and>
      map record_key dataset =
        [(''x'', ''10.0/X'', ''10.0/A''), (''x'', ''10.0/X'', ''10.0/B''),
         (''w'', ''10.0/W'', ''10.0/A'')])"
proof -
  let ?works = "[(''x'', ''10.0/X''), (''w'', ''10.0/W'')]"
  obtain dataset where run: "accumulate example_services ?works [] = Inr dataset"
    by (simp add: example_data_X example_data_W)
  have "discovery_order example_services ?works =
      [(''x'', ''10.0/X'', ''10.0/A''), (''x'', ''10.0/X'', ''10.0/B''),
       (''w'', ''10.0/W'', ''10.0/A'')]"
    by (simp add: discovery_order_def example_citing)
  with dataset_order_is_discovery_order [OF run] run show ?thesis by simp
qed

text \<open>
  C3, as the code has it. In the dataset of a run, every record carries the label and DOI
  of one of the cited works, and its citing DOI is in the citation list resolved for that
  cited DOI. When the cited works have distinct DOIs and no citation list names a citing
  DOI twice, no two records share (citing DOI, cited DOI). The same citing DOI does
  appear under different cited works.
\<close>

theorem dataset_cited_doi_and_pairs:
  assumes "accumulate svc works [] = Inr dataset"
  shows "(\<forall>r \<in> set dataset.
       (row_cited_entity r, row_cited_doi r) \<in> set works \<and>
       (\<exists>dois. get_citing_dois svc (row_cited_doi r) = Inr dois \<and> row_doi r \<in> set dois)) \<and>
    (distinct (map snd works) \<longrightarrow>
       (\<forall>(cited_entity, cited) \<in> set works. \<forall>dois.
          get_citing_dois svc cited = Inr dois \<longrightarrow> distinct dois) \<longrightarrow>
       distinct (map (\<lambda>r. (row_doi r, row_cited_doi r)) dataset)) \<and>
    (\<exists>svc' works' dataset' r1 r2.
       accumulate svc' works' [] = Inr dataset' \<and> r1 \<in> set dataset' \<and> r2 \<in> set dataset' \<and>
       row_doi r1 = row_doi r2 \<and> row_cited_doi r1 \<noteq> row_cited_doi r2)"
proof (intro conjI ballI impI)
  have keys: "map record_key dataset = discovery_order svc works"
    using accumulate_keys [OF assms] by simp
  {
    fix r assume "r \<in> set dataset"
    then have "record_key r \<in> set (map record_key dataset)" by simp
    with keys have "(row_cited_entity r, row_cited_doi r, row_doi r) \<in> set (discovery_order svc works)"
      by (simp add: record_key_def)
    then show "(row_cited_entity r, row_cited_doi r) \<in> set works"
      and "\<exists>dois. get_citing_dois svc (row_cited_doi r) = Inr dois \<and> row_doi r \<in> set dois"
      by (simp_all add: discovery_order_member)
  }
  {
    assume works: "distinct (map snd works)"
      and lists: "\<forall>(cited_entity, cited) \<in> set works. \<forall>dois.
        get_citing_dois svc cited = Inr dois \<longrightarrow> distinct dois"
    have "distinct (map (\<lambda>(cited_entity, cited, citing_doi). (citing_doi, cited))
        (discovery_order svc works))"
      using works lists by (intro discovery_order_distinct) auto
    then have "distinct (map (\<lambda>(cited_entity, cited, citing_doi). (citing_doi, cited))
        (map record_key dataset))"
      by (simp add: keys)
    then show "distinct (map (\<lambda>r. (row_doi r, row_cited_doi r)) dataset)"
      by (simp add: comp_def record_key_def)
  }
  let ?works = "[(''x'', ''10.0/X''), (''w'', ''10.0/W'')]"
  let ?row = "\<lparr>row_doi = ''10.0/A'',
       row_first_author_name = ustr ''Jane'', row_first_author_gender = ''male'',
       row_first_author_gender_accuracy = 95,
       row_last_author_name = ustr ''Jane'', row_last_author_gender = ''male'',
       row_last_author_gender_accuracy = 95\<rparr>"
  obtain dataset' where run: "accumulate example_services ?works [] = Inr dataset'"
    and r1: "tag_row ''x'' ''10.0/X'' ?row \<in> set dataset'"
    and r2: "tag_row ''w'' ''10.0/W'' ?row \<in> set dataset'"
    by (simp add: example_data_X example_data_W)
  have "row_doi (tag_row ''x'' ''10.0/X'' ?row) = row_doi (tag_row ''w'' ''10.0/W'' ?row)"
    and "row_cited_doi (tag_row ''x'' ''10.0/X'' ?row) \<noteq> row_cited_doi (tag_row ''w'' ''10.0/W'' ?row)"
    by (simp_all add: tag_row_def)
  with run r1 r2 show "\<exists>svc' works' dataset' r1 r2.
       accumulate svc' works' [] = Inr dataset' \<and> r1 \<in> set dataset' \<and> r2 \<in> set dataset' \<and>
       row_doi r1 = row_doi r2 \<and> row_cited_doi r1 \<noteq> row_cited_doi r2"
    by blast
qed

theorem dataset_cited_doi_and_pairs_witness:
  "\<exists>dataset.
     accumulate example_services [(''x'', ''10.0/X''), (''w'', ''10.0/W'')] [] = Inr dataset \<and>
     map (\<lambda>r. (row_doi r, row_cited_doi r)) dataset =
       [(''10.0/A'', ''10.0/X''), (''10.0/B'', ''10.0/X''), (''10.0/A'', ''10.0/W'')] \<and>
     distinct (map (\<lambda>r. (row_doi r, row_cited_doi r)) dataset)"
proof -
  let ?works = "[(''x'', ''10.0/X''), (''w'', ''10.0/W'')]"
  obtain dataset where run: "accumulate example_services ?works [] = Inr dataset"
    and pairs: "map (\<lambda>r. (row_doi r, row_cited_doi r)) dataset =
       [(''10.0/A'', ''10.0/X''), (''10.0/B'', ''10.0/X''), (''10.0/A'', ''10.0/W'')]"
    by (simp add: example_data_X example_data_W tag_row_def)
  have works: "distinct (map snd ?works)" by simp
  have lists: "\<forall>(cited_entity, cited) \<in> set ?works. \<forall>dois.
      get_citing_dois example_services cited = Inr dois \<longrightarrow> distinct dois"
    by (simp add: example_citing)
  from dataset_cited_doi_and_pairs [OF run] works lists
  have "distinct (map (\<lambda>r. (row_doi r, row_cited_doi r)) dataset)" by blast
  with run pairs show ?thesis by (intro exI [of _ dataset] conjI)
qed

text \<open>
  C3 as the specification words it fails: the loop does not deduplicate, so when the
  citation index lists a citing DOI twice for a cited work (Z), the dataset holds two
  records for the same (citing DOI, cited DOI).
\<close>

theorem dataset_repeats_pair_listed_twice:
  "accumulate example_services [(''z'', ''10.0/Z'')] [] =
     Inr [\<lparr>row_doi = ''10.0/A'',
           row_first_author_name = ustr ''Jane'', row_first_author_gender = ''male'',
           row_first_author_gender_accuracy = 95,
           row_last_author_name = ustr ''Jane'', row_last_author_gender = ''male'',
           row_last_author_gender_accuracy = 95,
           row_cited_entity = ''z'', row_cited_doi = ''10.0/Z''\<rparr>,
          \<lparr>row_doi = ''10.0/A'',
           row_first_author_name = ustr ''Jane'', row_first_author_gender = ''male'',
           row_first_author_gender_accuracy = 95,
           row_last_author_name = ustr ''Jane'', row_last_author_gender = ''male'',
           row_last_author_gender_accuracy = 95,
           row_cited_entity = ''z'', row_cited_doi = ''10.0/Z''\<rparr>]"
  by (simp add: get_data_def example_citing example_row_A tag_row_def)

text \<open>
  C2, as the code has it. No call is guarded: when author resolution or gender inference
  fails for one citing DOI of one cited work, the error leaves \<open>get_data\<close> and the
  accumulation loop, and the run ends with an error and without a dataset.
\<close>

theorem citing_doi_failure_aborts_run:
  assumes "(cited_entity, cited) \<in> set works"
    and "get_citing_dois svc cited = Inr dois"
    and "citing_doi \<in> set dois"
    and "names_from_xref svc citing_doi = Inl e \<or>
      (\<exists>fa_name la_name. names_from_xref svc citing_doi = Inr (fa_name, la_name) \<and>
         (name_to_gender svc fa_name (GENDER_API_KEY svc) = Inl e \<or>
          name_to_gender svc la_name (GENDER_API_KEY svc) = Inl e))"
  shows "(\<exists>e'. accumulate svc works citing_papers = Inl e') \<and>
    \<not> (\<exists>dataset. accumulate svc works citing_papers = Inr dataset)"
proof -
  from assms(4) obtain e1 where "get_data_row svc citing_doi = Inl e1"
    using get_data_row_fails by blast
  with assms(2,3) have "\<exists>e2. get_data svc cited = Inl e2"
    by (rule get_data_fails)
  with assms(1) obtain e' where "accumulate svc works citing_papers = Inl e'"
    using accumulate_fails by blast
  then show ?thesis by simp
qed

theorem citing_doi_failure_aborts_run_witness:
  "(''y'', ''10.0/Y'') \<in> set [(''y'', ''10.0/Y''), (''x'', ''10.0/X'')] \<and>
   get_citing_dois example_services ''10.0/Y'' = Inr [''10.0/C'', ''10.0/A''] \<and>
   names_from_xref example_services ''10.0/C'' = Inr (ustr ''Bob'', ustr ''Alice'') \<and>
   name_to_gender example_services (ustr ''Bob'') (GENDER_API_KEY example_services) =
     Inl RequestException \<and>
   (\<exists>e'. accumulate example_services [(''y'', ''10.0/Y''), (''x'', ''10.0/X'')] [] = Inl e')"
proof -
  let ?works = "[(''y'', ''10.0/Y''), (''x'', ''10.0/X'')]"
  have w: "(''y'', ''10.0/Y'') \<in> set ?works" by simp
  have dois: "get_citing_dois example_services ''10.0/Y'' = Inr [''10.0/C'', ''10.0/A'']"
    by (rule example_citing)
  have c: "''10.0/C'' \<in> set [''10.0/C'', ''10.0/A'']" by simp
  have names: "names_from_xref example_services ''10.0/C'' = Inr (ustr ''Bob'', ustr ''Alice'')"
    by (simp add: example_defs eval_defs)
  have gender: "name_to_gender example_services (ustr ''Bob'') (GENDER_API_KEY example_services) =
      Inl RequestException"
    by (simp add: example_defs eval_defs)
  from names gender have step: "names_from_xref example_services ''10.0/C'' = Inl RequestException \<or>
      (\<exists>fa_name la_name. names_from_xref example_services ''10.0/C'' = Inr (fa_name, la_name) \<and>
         (name_to_gender example_services fa_name (GENDER_API_KEY example_services) = Inl RequestException \<or>
          name_to_gender example_services la_name (GENDER_API_KEY example_services) = Inl RequestException))"
    by blast
  from citing_doi_failure_aborts_run [OF w dois c step, of "[]"] w dois names gender
  show ?thesis by blast
qed

text \<open>
  C2 as the specification words it fails: of the citing DOIs of Y, C fails at gender
  inference and A would succeed, as would both citing DOIs of the next cited work X; the
  failure of C is not skipped, it ends the whole run.
\<close>

theorem citing_doi_failure_is_not_skipped:
  "get_data_row example_services ''10.0/C'' = Inl RequestException \<and>
   isl (get_data_row example_services ''10.0/A'') = False \<and>
   isl (get_data example_services ''10.0/X'') = False \<and>
   accumulate example_services [(''y'', ''10.0/Y''), (''x'', ''10.0/X'')] [] =
     Inl RequestException"
  by (simp add: example_row_A example_row_C example_data_X example_data_Y)

lemma cited_dois_distinct: "distinct (map snd cited_dois)"
  by (simp add: cited_dois_def)

lemma make_dataset_keys:
  "make_dataset svc = Inr dataset \<Longrightarrow> map record_key dataset = discovery_order svc cited_dois"
  using accumulate_keys [of svc cited_dois "[]" dataset] by (simp add: make_dataset_def)

end
